theory Spec2Isabelle
  imports Main
begin

section \<open>Strings and primitive values of the host language\<close>

text \<open>
  Strings are lists of characters. Three characters matter to the filter grammar and are
  written by their codes: the double quote \<open>0x22\<close>, the backslash \<open>0x5C\<close> and NUL
  \<open>0x00\<close>.
\<close>

abbreviation dquote :: char where
  "dquote \<equiv> CHR 0x22"

abbreviation backslash :: char where
  "backslash \<equiv> CHR 0x5C"

abbreviation nul :: char where
  "nul \<equiv> CHR 0x00"

text \<open>
  \<open>Array.prototype.join\<close>: the elements separated by \<open>sep\<close>; the empty array gives
  the empty string, a one-element array gives the element.
\<close>

fun join :: "string \<Rightarrow> string list \<Rightarrow> string" where
  "join sep [] = []"
| "join sep [x] = x"
| "join sep (x # y # ys) = x @ sep @ join sep (y # ys)"

text \<open>
  The conversion of a number to a string, which template literals and \<open>join\<close> apply, is
  a built-in of the host language. For a safe integer (\<open>Number.isSafeInteger\<close>: an
  integer of magnitude at most \<open>2^53 - 1 = 9007199254740991\<close>) it gives the decimal
  numeral, with a minus sign below zero. For every other number (a fraction, an integer
  beyond the safe range, \<open>NaN\<close>, an infinity) the text it gives is not computed here.

  So a \<open>number\<close> is either \<open>Integer n\<close>, a safe integer held as that integer, or
  \<open>NonInteger txt\<close>, any other number, held as the text the host's conversion gives for
  it (such as \<open>0.5\<close>, \<open>1e+21\<close> or \<open>NaN\<close>). \<open>num i\<close> writes the safe integer \<open>i\<close>.
\<close>

typedef safe_integer = "{i :: int. \<bar>i\<bar> \<le> 9007199254740991}"
  by (rule exI [of _ 0]) simp

datatype number = Integer safe_integer | NonInteger string

abbreviation num :: "int \<Rightarrow> number" where
  "num i \<equiv> Integer (Abs_safe_integer i)"

definition digit_char :: "nat \<Rightarrow> char" where
  "digit_char d = ''0123456789'' ! d"

fun digits :: "nat \<Rightarrow> string" where
  "digits n = (if n < 10 then [digit_char n] else digits (n div 10) @ [digit_char (n mod 10)])"

declare digits.simps [simp del]

fun number_toString :: "number \<Rightarrow> string" where
  "number_toString (Integer n) =
     (let i = Rep_safe_integer n
      in if i < 0 then ''-'' @ digits (nat (- i)) else digits (nat i))"
| "number_toString (NonInteger txt) = txt"

text \<open>
  What a string of decimal digits stands for, read from the left: the yardstick for the
  numerals that \<open>number_toString\<close> writes.
\<close>

definition digit_value :: "char \<Rightarrow> nat" where
  "digit_value c = of_char c - 48"

definition decimal_value :: "string \<Rightarrow> nat" where
  "decimal_value s = foldl (\<lambda>a c. 10 * a + digit_value c) 0 s"

definition boolean_toString :: "bool \<Rightarrow> string" where
  "boolean_toString b = (if b then ''true'' else ''false'')"

section \<open>The filter builder (Filter.ts, kept in src/src/User.ts)\<close>

subsection \<open>Data\<close>

datatype AndOr = And | Or

datatype Operator = Eq | Neq | Gte | Gt | Lte | Lt | Search | Ilike | Like | Contains | In

text \<open>\<open>Value = string | string[] | number | number[] | boolean\<close>.\<close>

datatype Value =
    VString string
  | VStrings "string list"
  | VNumber number
  | VNumbers "number list"
  | VBoolean bool

record Expression =
  key :: string
  operator :: Operator
  "value" :: Value

text \<open>
  A \<open>FilterBuilder\<close> object holds \<open>and_or\<close> and the array \<open>expressions\<close>, whose
  elements are expressions or further builders.
\<close>

datatype FilterBuilder = FilterBuilder (and_or: AndOr) (expressions: "child list")
  and child = Leaf Expression | Group FilterBuilder

text \<open>The string a template literal prints for the two string-literal types.\<close>

fun AndOr_str :: "AndOr \<Rightarrow> string" where
  "AndOr_str And = ''and''"
| "AndOr_str Or = ''or''"

fun Operator_str :: "Operator \<Rightarrow> string" where
  "Operator_str Eq = ''eq''"
| "Operator_str Neq = ''neq''"
| "Operator_str Gte = ''gte''"
| "Operator_str Gt = ''gt''"
| "Operator_str Lte = ''lte''"
| "Operator_str Lt = ''lt''"
| "Operator_str Search = ''search''"
| "Operator_str Ilike = ''ilike''"
| "Operator_str Like = ''like''"
| "Operator_str Contains = ''contains''"
| "Operator_str In = ''in''"

subsection \<open>escape\<close>

text \<open>
  \<open>escape\<close> runs two global replacements one after the other: first every character of
  the class made of the backslash and the double quote is replaced by a backslash followed by the match, then every NUL is
  replaced by a backslash followed by the digit zero.
\<close>

primrec replace_backslash_quote :: "string \<Rightarrow> string" where
  "replace_backslash_quote [] = []"
| "replace_backslash_quote (c # cs) =
     (if c = backslash \<or> c = dquote then backslash # c # replace_backslash_quote cs
      else c # replace_backslash_quote cs)"

primrec replace_nul :: "string \<Rightarrow> string" where
  "replace_nul [] = []"
| "replace_nul (c # cs) =
     (if c = nul then backslash # CHR ''0'' # replace_nul cs else c # replace_nul cs)"

definition escape :: "string \<Rightarrow> string" where
  "escape str = replace_nul (replace_backslash_quote (str @ []))"

subsection \<open>Construction\<close>

text \<open>
  Methods that mutate the receiver take its state as last argument and return the state
  after the call (each of them returns \<open>this\<close>). A callback is handed a builder and its
  return value is thrown away, so all that counts of a callback is what it does to the
  builder it is given: a function from that builder's state before to its state after.
\<close>

type_synonym BuilderCallback = "FilterBuilder \<Rightarrow> FilterBuilder"

definition new_FilterBuilder :: "AndOr option \<Rightarrow> FilterBuilder" where
  "new_FilterBuilder t = FilterBuilder (case t of None \<Rightarrow> And | Some a \<Rightarrow> a) []"

definition addBooleanExpr :: "AndOr \<Rightarrow> BuilderCallback \<Rightarrow> FilterBuilder \<Rightarrow> FilterBuilder" where
  "addBooleanExpr expr_type callback this =
     (if length (expressions this) = 0
      then callback (FilterBuilder expr_type (expressions this))
      else (let builder = callback (new_FilterBuilder (Some expr_type))
            in FilterBuilder (and_or this) (expressions this @ [Group builder])))"

definition or' :: "BuilderCallback \<Rightarrow> FilterBuilder \<Rightarrow> FilterBuilder" where
  "or' callback this = addBooleanExpr Or callback this"

definition and' :: "BuilderCallback \<Rightarrow> FilterBuilder \<Rightarrow> FilterBuilder" where
  "and' callback this = addBooleanExpr And callback this"

definition addExpression :: "string \<Rightarrow> Operator \<Rightarrow> Value \<Rightarrow> FilterBuilder \<Rightarrow> FilterBuilder" where
  "addExpression k op v this =
     FilterBuilder (and_or this) (expressions this @ [Leaf \<lparr>key = k, operator = op, value = v\<rparr>])"

text \<open>
  The named wrappers fix the operator and pass the value on unchanged. Their parameter
  types (in the comments) narrow \<open>Value\<close> for the type checker only.
\<close>

definition where' :: "string \<Rightarrow> Value \<Rightarrow> FilterBuilder \<Rightarrow> FilterBuilder" where
  \<comment> \<open>\<open>value: string | number | boolean\<close>\<close>
  "where' k v this = addExpression k Eq v this"

definition whereNot :: "string \<Rightarrow> Value \<Rightarrow> FilterBuilder \<Rightarrow> FilterBuilder" where
  \<comment> \<open>\<open>value: string | number | boolean\<close>\<close>
  "whereNot k v this = addExpression k Neq v this"

definition whereGte :: "string \<Rightarrow> Value \<Rightarrow> FilterBuilder \<Rightarrow> FilterBuilder" where
  \<comment> \<open>\<open>value: number\<close>\<close>
  "whereGte k v this = addExpression k Gte v this"

definition whereGt :: "string \<Rightarrow> Value \<Rightarrow> FilterBuilder \<Rightarrow> FilterBuilder" where
  \<comment> \<open>\<open>value: number\<close>\<close>
  "whereGt k v this = addExpression k Gt v this"

definition whereLte :: "string \<Rightarrow> Value \<Rightarrow> FilterBuilder \<Rightarrow> FilterBuilder" where
  \<comment> \<open>\<open>value: number\<close>\<close>
  "whereLte k v this = addExpression k Lte v this"

definition whereLt :: "string \<Rightarrow> Value \<Rightarrow> FilterBuilder \<Rightarrow> FilterBuilder" where
  \<comment> \<open>\<open>value: number\<close>\<close>
  "whereLt k v this = addExpression k Lt v this"

definition whereLike :: "string \<Rightarrow> Value \<Rightarrow> FilterBuilder \<Rightarrow> FilterBuilder" where
  \<comment> \<open>\<open>value: string\<close>\<close>
  "whereLike k v this = addExpression k Like v this"

definition whereILike :: "string \<Rightarrow> Value \<Rightarrow> FilterBuilder \<Rightarrow> FilterBuilder" where
  \<comment> \<open>\<open>value: string\<close>\<close>
  "whereILike k v this = addExpression k Ilike v this"

definition whereSearch :: "string \<Rightarrow> Value \<Rightarrow> FilterBuilder \<Rightarrow> FilterBuilder" where
  \<comment> \<open>\<open>value: string\<close>\<close>
  "whereSearch k v this = addExpression k Search v this"

definition whereContains :: "string \<Rightarrow> Value \<Rightarrow> FilterBuilder \<Rightarrow> FilterBuilder" where
  \<comment> \<open>\<open>value: string | number\<close>\<close>
  "whereContains k v this = addExpression k Contains v this"

definition whereIn :: "string \<Rightarrow> Value \<Rightarrow> FilterBuilder \<Rightarrow> FilterBuilder" where
  \<comment> \<open>\<open>values: string[] | number[]\<close>\<close>
  "whereIn k vs this = addExpression k In vs this"

subsection \<open>Serialization\<close>

definition buildExpression :: "Expression \<Rightarrow> string" where
  "buildExpression expression =
     (let v = (case value expression of
                 VStrings xs \<Rightarrow> ''('' @ join '','' xs @ '')''
               | VNumbers ns \<Rightarrow> ''('' @ join '','' (map number_toString ns) @ '')''
               | VString s \<Rightarrow> [dquote] @ escape s @ [dquote]
               | VNumber n \<Rightarrow> number_toString n
               | VBoolean b \<Rightarrow> boolean_toString b)
      in key expression @ ''.'' @ Operator_str (operator expression) @ ''.'' @ v)"

fun build :: "FilterBuilder \<Rightarrow> string"
  and build_child :: "child \<Rightarrow> string" where
  "build (FilterBuilder t es) =
     (if length es = 0 then ''''
      else (let exprs = join '','' (map build_child es)
            in AndOr_str t @ ''('' @ exprs @ '')''))"
| "build_child (Group b) = build b"
| "build_child (Leaf e) = buildExpression e"


text \<open>
  The character-wise reading of the escaping rule, as the specification words it: a
  backslash or a double quote is prefixed by a backslash, a NUL becomes a backslash and
  the digit zero, any other character stays.
\<close>

definition escape_char_spec :: "char \<Rightarrow> string" where
  "escape_char_spec c =
     (if c = backslash \<or> c = dquote then [backslash, c]
      else if c = nul then [backslash, CHR ''0'']
      else [c])"

subsection \<open>build as a method on the receiver's state\<close>

text \<open>
  \<open>build\<close> is a method on mutable objects like the others. Here it is written in the
  same state-passing style: it returns the string together with the receiver's state
  after the call, where the state of every child builder is the one its own \<open>build\<close>
  call leaves behind (\<open>map\<close> and \<open>join\<close> build new values and leave the array alone).
\<close>

fun build_st :: "FilterBuilder \<Rightarrow> string \<times> FilterBuilder"
  and build_child_st :: "child \<Rightarrow> string \<times> child" where
  "build_st (FilterBuilder t es) =
     (if length es = 0 then ('''', FilterBuilder t es)
      else (let rs = map build_child_st es;
                exprs = join '','' (map fst rs)
            in (AndOr_str t @ ''('' @ exprs @ '')'', FilterBuilder t (map snd rs))))"
| "build_child_st (Group b) = (case build_st b of (s, b') \<Rightarrow> (s, Group b'))"
| "build_child_st (Leaf e) = (buildExpression e, Leaf e)"

section \<open>The query builder (Query.ts)\<close>

subsection \<open>Select\<close>

text \<open>
  \<open>SimplifiedSelect = string | [string, SimplifiedSelect[]]\<close>: a string (\<open>Field\<close>) or a
  pair of a relation name and the selects below it (\<open>Relation\<close>).
\<close>

datatype SimplifiedSelect = Field string | Relation string "SimplifiedSelect list"

fun buildSelect :: "SimplifiedSelect list \<Rightarrow> string" where
  "buildSelect fields' =
     join '',''
       (map (\<lambda>v. case v of
                    Field s \<Rightarrow> s
                  | Relation n cs \<Rightarrow> n @ ''('' @ buildSelect cs @ '')'')
          fields')"

declare buildSelect.simps [simp del]

text \<open>The serializer as the specification words it, node by node.\<close>

fun serialize_node_spec :: "SimplifiedSelect \<Rightarrow> string" where
  "serialize_node_spec (Field name) = name"
| "serialize_node_spec (Relation name children) =
     name @ ''('' @ join '','' (map serialize_node_spec children) @ '')''"

subsection \<open>Sort\<close>

datatype SortOrder = Asc | Desc

record Sort =
  sort_key :: string
  sort_order :: SortOrder

text \<open>
  The repository holds two versions of \<open>Query.formatSort\<close>. The one of the query
  builder that works with the filter builder (src/unnamed/part_002) returns the mapped
  array.
\<close>

definition formatSort :: "Sort list \<Rightarrow> string list" where
  "formatSort sorts =
     map (\<lambda>sort. case sort_order sort of
                    Asc \<Rightarrow> sort_key sort
                  | Desc \<Rightarrow> ''!'' @ sort_key sort)
       sorts"

text \<open>
  The one in src/src/Query.ts evaluates the same \<open>map\<close> as an expression statement and
  falls off the end of the function: the call yields \<open>undefined\<close>, written \<open>None\<close>.
\<close>

definition formatSort_src_Query :: "Sort list \<Rightarrow> string list option" where
  "formatSort_src_Query sorts =
     (let dropped = map (\<lambda>sort. case sort_order sort of
                                  Asc \<Rightarrow> sort_key sort
                                | Desc \<Rightarrow> ''!'' @ sort_key sort)
                      sorts
      in None)"

text \<open>The formatting of one directive as the specification words it.\<close>

definition format_directive_spec :: "Sort \<Rightarrow> string" where
  "format_directive_spec s = (if sort_order s = Desc then ''!'' @ sort_key s else sort_key s)"

section \<open>Helper facts\<close>

lemma digit_char_cases: "d < 10 \<Longrightarrow> d \<in> {0, 1, 2, 3, 4, 5, 6, 7, 8, 9 :: nat}"
  by auto

lemma digit_value_digit_char: "d < 10 \<Longrightarrow> digit_value (digit_char d) = d"
  using digit_char_cases [of d] by (auto simp: digit_value_def digit_char_def)

lemma digit_char_in: "d < 10 \<Longrightarrow> digit_char d \<in> set ''0123456789''"
  using digit_char_cases [of d] by (auto simp: digit_char_def)

lemma digit_char_zero: "d < 10 \<Longrightarrow> digit_char d = CHR ''0'' \<longleftrightarrow> d = 0"
  using digit_char_cases [of d] by (auto simp: digit_char_def)

lemma decimal_value_snoc: "decimal_value (s @ [c]) = 10 * decimal_value s + digit_value c"
  by (simp add: decimal_value_def)

lemma digits_nonempty: "digits n \<noteq> []"
  by (subst digits.simps) simp

lemma decimal_value_digits: "decimal_value (digits n) = n"
proof (induction n rule: digits.induct)
  case (1 n)
  show ?case
  proof (cases "n < 10")
    case True
    then show ?thesis
      by (subst digits.simps) (simp add: decimal_value_def digit_value_digit_char)
  next
    case False
    with 1 show ?thesis
      by (subst digits.simps) (simp add: decimal_value_snoc digit_value_digit_char)
  qed
qed

lemma set_digits: "set (digits n) \<subseteq> set ''0123456789''"
proof (induction n rule: digits.induct)
  case (1 n)
  show ?case
  proof (cases "n < 10")
    case True
    then show ?thesis
      using digit_char_in [of n] by (subst digits.simps) simp
  next
    case False
    with 1 digit_char_in [of "n mod 10"] show ?thesis
      by (subst digits.simps) simp
  qed
qed

lemma hd_digits: "0 < n \<Longrightarrow> hd (digits n) \<noteq> CHR ''0''"
proof (induction n rule: digits.induct)
  case (1 n)
  show ?case
  proof (cases "n < 10")
    case True
    with 1(2) show ?thesis
      by (subst digits.simps) (simp add: digit_char_zero)
  next
    case False
    then have "0 < n div 10" by simp
    with 1 False show ?thesis
      by (subst digits.simps) (simp add: digits_nonempty)
  qed
qed

lemma join_snoc: "xs \<noteq> [] \<Longrightarrow> join sep (xs @ [y]) = join sep xs @ sep @ y"
  by (induction sep xs rule: join.induct) auto

lemma join_append:
  "xs \<noteq> [] \<Longrightarrow> ys \<noteq> [] \<Longrightarrow> join sep (xs @ ys) = join sep xs @ sep @ join sep ys"
  by (induction sep xs rule: join.induct) (auto simp: neq_Nil_conv)

lemma length_join:
  "length (join sep xs) = sum_list (map length xs) + length sep * (length xs - 1)"
  by (induction sep xs rule: join.induct) auto

lemma addExpression_fold:
  "fold (\<lambda>(k, op, v). addExpression k op v) cs (FilterBuilder t es) =
   FilterBuilder t (es @ map (\<lambda>(k, op, v). Leaf \<lparr>key = k, operator = op, value = v\<rparr>) cs)"
  by (induction cs arbitrary: es) (auto simp: addExpression_def)

lemma addBooleanExpr_empty:
  "expressions b = [] \<Longrightarrow> addBooleanExpr t cb b = cb (FilterBuilder t [])"
  by (simp add: addBooleanExpr_def)

lemma addBooleanExpr_nonempty:
  "expressions b \<noteq> [] \<Longrightarrow>
   addBooleanExpr t cb b =
     FilterBuilder (and_or b) (expressions b @ [Group (cb (FilterBuilder t []))])"
  by (simp add: addBooleanExpr_def new_FilterBuilder_def)

lemma build_empty: "expressions b = [] \<Longrightarrow> build b = ''''"
  by (cases b) simp

lemma build_nonempty:
  "expressions b \<noteq> [] \<Longrightarrow>
   build b = AndOr_str (and_or b) @ ''('' @ join '','' (map build_child (expressions b)) @ '')''"
  by (cases b) simp

lemma escape_concat: "escape s = concat (map escape_char_spec s)"
  by (induction s) (auto simp: escape_def escape_char_spec_def)

lemma build_st_build:
  "build_st b = (build b, b)" and "build_child_st c = (build_child c, c)"
  by (induction b and c) (auto simp: map_idI comp_def cong: map_cong)

lemma buildSelect_spec: "buildSelect fs = join '','' (map serialize_node_spec fs)"
proof (induction fs rule: buildSelect.induct)
  case (1 fs)
  have "(case v of Field s \<Rightarrow> s | Relation n cs \<Rightarrow> n @ ''('' @ buildSelect cs @ '')'') =
        serialize_node_spec v" if "v \<in> set fs" for v
  proof (cases v)
    case (Field s)
    then show ?thesis by simp
  next
    case (Relation n cs)
    with that 1 [of v n cs] show ?thesis by simp
  qed
  then show ?case
    by (subst buildSelect.simps) (simp cong: map_cong)
qed

lemma formatSort_spec: "formatSort sorts = map format_directive_spec sorts"
  by (auto simp: formatSort_def format_directive_spec_def split: SortOrder.splits)

lemmas builder_calls =
  or'_def and'_def addBooleanExpr_def new_FilterBuilder_def addExpression_def
  where'_def whereGte_def whereIn_def

lemmas rendering =
  buildExpression_def Abs_safe_integer_inverse digits.simps digit_char_def boolean_toString_def
  escape_def

section \<open>Scoping calls on an empty group\<close>

text \<open>
  C1. On a builder whose group has no children, \<open>or(cb)\<close> and \<open>and(cb)\<close> build no nested
  group: the group's combinator is overwritten with the requested one and \<open>cb\<close> runs on
  that same group, so that the expressions \<open>cb\<close> adds are direct children (shown for a
  callback adding any sequence \<open>cs\<close> of expressions). On a fresh builder, \<open>or(cb)\<close>
  with \<open>cb\<close> adding \<open>where("x", 1)\<close> and \<open>where("y", 2)\<close> builds
  \<open>or(x.eq.1,y.eq.2)\<close>.
\<close>

theorem C1_scope_on_empty_group:
  "(expressions b = [] \<longrightarrow>
      or' cb b = cb (FilterBuilder Or []) \<and>
      and' cb b = cb (FilterBuilder And []) \<and>
      or' (fold (\<lambda>(k, op, v). addExpression k op v) cs) b =
        FilterBuilder Or (map (\<lambda>(k, op, v). Leaf \<lparr>key = k, operator = op, value = v\<rparr>) cs) \<and>
      and' (fold (\<lambda>(k, op, v). addExpression k op v) cs) b =
        FilterBuilder And (map (\<lambda>(k, op, v). Leaf \<lparr>key = k, operator = op, value = v\<rparr>) cs)) \<and>
   build (or' (\<lambda>builder. where' ''y'' (VNumber (num 2)) (where' ''x'' (VNumber (num 1)) builder))
            (new_FilterBuilder None)) = ''or(x.eq.1,y.eq.2)''"
proof -
  have ex: "build (or' (\<lambda>builder. where' ''y'' (VNumber (num 2)) (where' ''x'' (VNumber (num 1)) builder))
            (new_FilterBuilder None)) = ''or(x.eq.1,y.eq.2)''"
    by (simp add: or'_def addBooleanExpr_def new_FilterBuilder_def where'_def addExpression_def
        buildExpression_def Abs_safe_integer_inverse digits.simps digit_char_def)
  have gen: "or' f b = f (FilterBuilder Or []) \<and> and' f b = f (FilterBuilder And [])"
    if "expressions b = []" for f
    using that by (simp add: or'_def and'_def addBooleanExpr_empty)
  show ?thesis
    using ex gen [of cb] gen [of "fold (\<lambda>(k, op, v). addExpression k op v) cs"]
    by (simp add: addExpression_fold)
qed

theorem C1_scope_on_empty_group_witness:
  "expressions (new_FilterBuilder (Some And)) = [] \<and>
   or' (where' ''x'' (VNumber (num 1))) (new_FilterBuilder (Some And)) =
     FilterBuilder Or [Leaf \<lparr>key = ''x'', operator = Eq, value = VNumber (num 1)\<rparr>]"
  using C1_scope_on_empty_group [of "new_FilterBuilder (Some And)" "where' ''x'' (VNumber (num 1))" "[]"]
  by (simp add: new_FilterBuilder_def where'_def addExpression_def)

section \<open>Scoping calls on a group that has children\<close>

text \<open>
  C2, the example as the claim states it, fails: the string \<open>"2019-01-01"\<close> that
  \<open>whereGte\<close> passes on is rendered in double quotes, like every string scalar, so the
  result is not \<open>and(id.in.(1,2,3),or(active.eq.true,created_at.gte.2019-01-01))\<close>.
\<close>

theorem C2_example_counterexample:
  "build (or' (whereGte ''created_at'' (VString ''2019-01-01'') \<circ> where' ''active'' (VBoolean True))
            (whereIn ''id'' (VNumbers [num 1, num 2, num 3]) (new_FilterBuilder None))) \<noteq>
   ''and(id.in.(1,2,3),or(active.eq.true,created_at.gte.2019-01-01))''"
  by (simp add: builder_calls rendering)

text \<open>
  C2, amended. On a builder whose group has at least one child, \<open>or(cb)\<close> and
  \<open>and(cb)\<close> make a new group with the requested combinator, run \<open>cb\<close> on it and append
  the finished group as the last child of the current group, whose combinator and
  earlier children stay (for a callback adding any sequence \<open>cs\<close> of expressions the new
  child holds exactly these). \<open>whereIn("id", [1,2,3])\<close> followed by \<open>or(cb)\<close>, with \<open>cb\<close>
  adding \<open>where("active", true)\<close> and \<open>whereGte("created_at", "2019-01-01")\<close>, builds
  \<open>and(id.in.(1,2,3),or(active.eq.true,created_at.gte."2019-01-01"))\<close>.
\<close>

theorem C2_scope_on_nonempty_group:
  "(expressions b \<noteq> [] \<longrightarrow>
      or' cb b =
        FilterBuilder (and_or b) (expressions b @ [Group (cb (new_FilterBuilder (Some Or)))]) \<and>
      and' cb b =
        FilterBuilder (and_or b) (expressions b @ [Group (cb (new_FilterBuilder (Some And)))]) \<and>
      or' (fold (\<lambda>(k, op, v). addExpression k op v) cs) b =
        FilterBuilder (and_or b)
          (expressions b @
           [Group (FilterBuilder Or
              (map (\<lambda>(k, op, v). Leaf \<lparr>key = k, operator = op, value = v\<rparr>) cs))]) \<and>
      and' (fold (\<lambda>(k, op, v). addExpression k op v) cs) b =
        FilterBuilder (and_or b)
          (expressions b @
           [Group (FilterBuilder And
              (map (\<lambda>(k, op, v). Leaf \<lparr>key = k, operator = op, value = v\<rparr>) cs))])) \<and>
   build (or' (whereGte ''created_at'' (VString ''2019-01-01'') \<circ> where' ''active'' (VBoolean True))
            (whereIn ''id'' (VNumbers [num 1, num 2, num 3]) (new_FilterBuilder None))) =
   ''and(id.in.(1,2,3),or(active.eq.true,created_at.gte.'' @ [dquote] @ ''2019-01-01'' @
     [dquote] @ ''))''"
proof -
  have ex: "build (or' (whereGte ''created_at'' (VString ''2019-01-01'') \<circ> where' ''active'' (VBoolean True))
            (whereIn ''id'' (VNumbers [num 1, num 2, num 3]) (new_FilterBuilder None))) =
      ''and(id.in.(1,2,3),or(active.eq.true,created_at.gte.'' @ [dquote] @ ''2019-01-01'' @
      [dquote] @ ''))''"
    by (simp add: builder_calls rendering)
  have gen: "or' f b =
        FilterBuilder (and_or b) (expressions b @ [Group (f (new_FilterBuilder (Some Or)))]) \<and>
      and' f b =
        FilterBuilder (and_or b) (expressions b @ [Group (f (new_FilterBuilder (Some And)))])"
    if "expressions b \<noteq> []" for f
    using that by (simp add: or'_def and'_def addBooleanExpr_nonempty new_FilterBuilder_def)
  show ?thesis
    using ex gen [of cb] gen [of "fold (\<lambda>(k, op, v). addExpression k op v) cs"]
    by (simp add: addExpression_fold new_FilterBuilder_def)
qed

theorem C2_scope_on_nonempty_group_witness:
  "expressions (where' ''a'' (VNumber (num 1)) (new_FilterBuilder None)) \<noteq> [] \<and>
   or' (where' ''x'' (VNumber (num 1))) (where' ''a'' (VNumber (num 1)) (new_FilterBuilder None)) =
     FilterBuilder And
       [Leaf \<lparr>key = ''a'', operator = Eq, value = VNumber (num 1)\<rparr>,
        Group (FilterBuilder Or [Leaf \<lparr>key = ''x'', operator = Eq, value = VNumber (num 1)\<rparr>])]"
  using C2_scope_on_nonempty_group
    [of "where' ''a'' (VNumber (num 1)) (new_FilterBuilder None)" "where' ''x'' (VNumber (num 1))" "[]"]
  by (simp add: new_FilterBuilder_def where'_def addExpression_def)

section \<open>Rendering of values\<close>

text \<open>
  C3. A string scalar is rendered between double quotes, each of its characters
  replaced as the escaping rule says: a backslash or double quote gets a backslash in
  front, a NUL becomes a backslash and the digit zero, every other character stays.
  \<open>where("name", 'John "Doe"')\<close> gives the leaf \<open>name.eq."John \"Doe\""\<close>.

  A number is rendered as the text of the host's conversion with nothing put around it.
  For a safe integer that text is the decimal numeral: a minus sign below zero, then
  digits only, which read as a decimal give back the magnitude, with no leading zero
  (zero itself is \<open>0\<close>); it holds no double quote. For any other number it is the text
  the host gives. A boolean is rendered as \<open>true\<close> or \<open>false\<close>, without quotes.
\<close>

theorem C3_scalar_rendering:
  "buildExpression \<lparr>key = k, operator = op, value = VString s\<rparr> =
     k @ ''.'' @ Operator_str op @ ''.'' @ [dquote] @ concat (map escape_char_spec s) @ [dquote] \<and>
   build (where' k (VString s) (new_FilterBuilder None)) =
     ''and('' @ k @ ''.eq.'' @ [dquote] @ concat (map escape_char_spec s) @ [dquote] @ '')'' \<and>
   build (where' ''name'' (VString (''John '' @ [dquote] @ ''Doe'' @ [dquote]))
            (new_FilterBuilder None)) =
     ''and(name.eq.'' @ [dquote] @ ''John '' @ [backslash, dquote] @ ''Doe'' @
       [backslash, dquote] @ [dquote] @ '')'' \<and>
   escape [nul] = [backslash, CHR ''0''] \<and>
   buildExpression \<lparr>key = k, operator = op, value = VNumber x\<rparr> =
     k @ ''.'' @ Operator_str op @ ''.'' @ number_toString x \<and>
   build (where' k (VNumber x) (new_FilterBuilder None)) =
     ''and('' @ k @ ''.eq.'' @ number_toString x @ '')'' \<and>
   number_toString (Integer n) =
     (if Rep_safe_integer n < 0 then ''-'' else '''') @ digits (nat \<bar>Rep_safe_integer n\<bar>) \<and>
   decimal_value (digits m) = m \<and>
   set (digits m) \<subseteq> set ''0123456789'' \<and>
   hd (digits (Suc m)) \<noteq> CHR ''0'' \<and>
   digits 0 = ''0'' \<and>
   dquote \<notin> set (number_toString (Integer n)) \<and>
   number_toString (NonInteger txt) = txt \<and>
   buildExpression \<lparr>key = k, operator = op, value = VBoolean bl\<rparr> =
     k @ ''.'' @ Operator_str op @ ''.'' @ (if bl then ''true'' else ''false'') \<and>
   build (where' ''a'' (VNumber (num 1)) (new_FilterBuilder None)) = ''and(a.eq.1)'' \<and>
   buildExpression \<lparr>key = ''age'', operator = Gt, value = VNumber (num (- 18))\<rparr> = ''age.gt.-18'' \<and>
   buildExpression \<lparr>key = ''n'', operator = Lte, value = VNumber (num 9007199254740991)\<rparr> =
     ''n.lte.9007199254740991'' \<and>
   buildExpression \<lparr>key = ''x'', operator = Lt, value = VNumber (NonInteger ''1e+21'')\<rparr> =
     ''x.lt.1e+21'' \<and>
   buildExpression \<lparr>key = ''active'', operator = Eq, value = VBoolean True\<rparr> = ''active.eq.true''"
proof -
  have str: "buildExpression \<lparr>key = k, operator = op, value = VString s\<rparr> =
     k @ ''.'' @ Operator_str op @ ''.'' @ [dquote] @ concat (map escape_char_spec s) @ [dquote]"
    by (simp add: buildExpression_def escape_concat)
  have bld: "build (where' k (VString s) (new_FilterBuilder None)) =
     ''and('' @ k @ ''.eq.'' @ [dquote] @ concat (map escape_char_spec s) @ [dquote] @ '')''"
    by (simp add: builder_calls buildExpression_def escape_concat)
  have ex: "build (where' ''name'' (VString (''John '' @ [dquote] @ ''Doe'' @ [dquote]))
            (new_FilterBuilder None)) =
     ''and(name.eq.'' @ [dquote] @ ''John '' @ [backslash, dquote] @ ''Doe'' @
       [backslash, dquote] @ [dquote] @ '')''"
    by (simp add: builder_calls rendering)
  have nul: "escape [nul] = [backslash, CHR ''0'']"
    by (simp add: escape_def)
  have num: "buildExpression \<lparr>key = k, operator = op, value = VNumber x\<rparr> =
     k @ ''.'' @ Operator_str op @ ''.'' @ number_toString x"
    by (simp add: buildExpression_def)
  have bld_num: "build (where' k (VNumber x) (new_FilterBuilder None)) =
     ''and('' @ k @ ''.eq.'' @ number_toString x @ '')''"
    by (simp add: builder_calls buildExpression_def)
  have shape: "number_toString (Integer n) =
     (if Rep_safe_integer n < 0 then ''-'' else '''') @ digits (nat \<bar>Rep_safe_integer n\<bar>)"
    by (simp add: Let_def)
  have val: "decimal_value (digits m) = m"
    by (rule decimal_value_digits)
  have chars: "set (digits m) \<subseteq> set ''0123456789''"
    by (rule set_digits)
  have lead: "hd (digits (Suc m)) \<noteq> CHR ''0''"
    by (rule hd_digits) simp
  have zero: "digits 0 = ''0''"
    by (simp add: digits.simps digit_char_def)
  have unq: "dquote \<notin> set (number_toString (Integer n))"
  proof -
    have "dquote \<notin> set (digits (nat \<bar>Rep_safe_integer n\<bar>))"
      using set_digits [of "nat \<bar>Rep_safe_integer n\<bar>"] by auto
    then show ?thesis
      by (simp only: shape) (simp split: if_splits)
  qed
  have other: "number_toString (NonInteger txt) = txt"
    by simp
  have bool: "buildExpression \<lparr>key = k, operator = op, value = VBoolean bl\<rparr> =
     k @ ''.'' @ Operator_str op @ ''.'' @ (if bl then ''true'' else ''false'')"
    by (simp add: buildExpression_def boolean_toString_def)
  have ex_one: "build (where' ''a'' (VNumber (num 1)) (new_FilterBuilder None)) = ''and(a.eq.1)''"
    by (simp add: builder_calls rendering)
  have ex_num: "buildExpression \<lparr>key = ''age'', operator = Gt, value = VNumber (num (- 18))\<rparr> =
     ''age.gt.-18''"
    by (simp add: rendering)
  have ex_max: "buildExpression \<lparr>key = ''n'', operator = Lte, value = VNumber (num 9007199254740991)\<rparr> =
     ''n.lte.9007199254740991''"
    by (simp add: rendering)
  have ex_other: "buildExpression \<lparr>key = ''x'', operator = Lt, value = VNumber (NonInteger ''1e+21'')\<rparr> =
     ''x.lt.1e+21''"
    by (simp add: rendering)
  have ex_bool: "buildExpression \<lparr>key = ''active'', operator = Eq, value = VBoolean True\<rparr> =
     ''active.eq.true''"
    by (simp add: rendering)
  from str bld ex nul num bld_num shape val chars lead zero unq other bool
    ex_one ex_num ex_max ex_other ex_bool
  show ?thesis
    by (intro conjI)
qed

text \<open>
  C4. A sequence value is rendered as its elements joined by commas between
  parentheses. String elements go in as they are, with no quotes and nothing escaped
  (the rendered list is as long as the elements together plus one comma between
  neighbours), also when an element holds a comma, a parenthesis, a double quote or a
  backslash; number elements go in as the text of the host's conversion.
\<close>

theorem C4_sequence_rendering:
  "buildExpression \<lparr>key = k, operator = op, value = VStrings xs\<rparr> =
     k @ ''.'' @ Operator_str op @ ''.'' @ ''('' @ join '','' xs @ '')'' \<and>
   length (join '','' xs) = sum_list (map length xs) + (length xs - 1) \<and>
   buildExpression \<lparr>key = k, operator = op, value = VNumbers ns\<rparr> =
     k @ ''.'' @ Operator_str op @ ''.'' @ ''('' @ join '','' (map number_toString ns) @ '')'' \<and>
   build (whereIn ''name'' (VStrings [''a,b'', ''c)'', [dquote] @ ''d'', [backslash]])
            (new_FilterBuilder None)) =
     ''and(name.in.(a,b,c),'' @ [dquote] @ ''d,'' @ [backslash] @ ''))'' \<and>
   build (whereIn ''id'' (VNumbers [num 1, num 2, num 3]) (new_FilterBuilder None)) = ''and(id.in.(1,2,3))''"
proof -
  have strs: "buildExpression \<lparr>key = k, operator = op, value = VStrings xs\<rparr> =
     k @ ''.'' @ Operator_str op @ ''.'' @ ''('' @ join '','' xs @ '')''"
    by (simp add: buildExpression_def)
  have len: "length (join '','' xs) = sum_list (map length xs) + (length xs - 1)"
    by (simp add: length_join)
  have nums: "buildExpression \<lparr>key = k, operator = op, value = VNumbers ns\<rparr> =
     k @ ''.'' @ Operator_str op @ ''.'' @ ''('' @ join '','' (map number_toString ns) @ '')''"
    by (simp add: buildExpression_def)
  have ex: "build (whereIn ''name'' (VStrings [''a,b'', ''c)'', [dquote] @ ''d'', [backslash]])
            (new_FilterBuilder None)) =
     ''and(name.in.(a,b,c),'' @ [dquote] @ ''d,'' @ [backslash] @ ''))''"
    by (simp add: builder_calls rendering)
  have ex_num: "build (whereIn ''id'' (VNumbers [num 1, num 2, num 3]) (new_FilterBuilder None)) =
     ''and(id.in.(1,2,3))''"
    by (simp add: builder_calls rendering)
  from strs len nums ex ex_num show ?thesis
    by (intro conjI)
qed

section \<open>When a group's combinator changes\<close>




section \<open>Building\<close>

text \<open>
  C6. A builder without expressions builds the empty string, whatever its combinator:
  so does a fresh builder, and so does an empty builder after an \<open>and()\<close>/\<open>or()\<close> call
  whose callback left it empty, though that call has relabelled it.
\<close>

theorem C6_empty_builder_builds_empty_string:
  "(expressions e = [] \<longrightarrow> build e = '''') \<and>
   build (new_FilterBuilder t0) = '''' \<and>
   (expressions e = [] \<and> expressions (cb (FilterBuilder t [])) = [] \<longrightarrow>
      build (addBooleanExpr t cb e) = '''') \<and>
   (expressions e = [] \<longrightarrow>
      and_or (or' id e) = Or \<and> build (or' id e) = '''' \<and>
      and_or (and' id e) = And \<and> build (and' id e) = '''')"
proof -
  have fresh: "build (new_FilterBuilder t0) = ''''"
    by (simp add: new_FilterBuilder_def)
  have scoped: "build (addBooleanExpr t cb e) = ''''"
    if "expressions e = []" "expressions (cb (FilterBuilder t [])) = []"
    using that by (simp add: addBooleanExpr_empty build_empty)
  have noop: "and_or (or' id e) = Or \<and> build (or' id e) = '''' \<and>
      and_or (and' id e) = And \<and> build (and' id e) = ''''"
    if "expressions e = []"
    using that by (simp add: or'_def and'_def addBooleanExpr_empty)
  from fresh scoped noop build_empty [of e] show ?thesis
    by blast
qed

theorem C6_empty_builder_builds_empty_string_witness:
  "expressions (new_FilterBuilder (Some Or)) = [] \<and>
   expressions (id (FilterBuilder And [])) = [] \<and>
   build (new_FilterBuilder (Some Or)) = '''' \<and>
   build (addBooleanExpr And id (new_FilterBuilder (Some Or))) = ''''"
  using C6_empty_builder_builds_empty_string [of "new_FilterBuilder (Some Or)" None id And]
  by (simp add: new_FilterBuilder_def)

text \<open>
  C8. \<open>build\<close> changes nothing: the state it leaves is the state it found, all the way
  down the tree (every child, every nested group and its combinator), and the string it
  returns is the one a second call returns.
\<close>

theorem C8_build_idempotent_nonmutating:
  "snd (build_st b) = b \<and>
   fst (build_st b) = build b \<and>
   build_st (snd (build_st b)) = build_st b \<and>
   fst (build_st (snd (build_st b))) = fst (build_st b)"
  by (simp add: build_st_build)

text \<open>
  C10. When \<open>and(cb)\<close>/\<open>or(cb)\<close> is called on a group that has a child and \<open>cb\<close> leaves
  the new group empty, the empty group is appended all the same and is rendered as the
  empty string after a comma: the built string ends in \<open>,)\<close>. \<open>where("a", 1)\<close> followed
  by \<open>or(cb)\<close> with a callback that adds nothing builds \<open>and(a.eq.1,)\<close>.
\<close>

theorem C10_empty_subgroup_dangling_comma:
  "(expressions b \<noteq> [] \<and> expressions (cb (FilterBuilder t [])) = [] \<longrightarrow>
      expressions (addBooleanExpr t cb b) = expressions b @ [Group (cb (FilterBuilder t []))] \<and>
      build (addBooleanExpr t cb b) =
        AndOr_str (and_or b) @ ''('' @ join '','' (map build_child (expressions b)) @ '','' @ '')'') \<and>
   build (or' id (where' ''a'' (VNumber (num 1)) (new_FilterBuilder None))) = ''and(a.eq.1,)''"
proof -
  have ex: "build (or' id (where' ''a'' (VNumber (num 1)) (new_FilterBuilder None))) = ''and(a.eq.1,)''"
    by (simp add: builder_calls rendering)
  have gen: "expressions (addBooleanExpr t cb b) = expressions b @ [Group (cb (FilterBuilder t []))] \<and>
      build (addBooleanExpr t cb b) =
        AndOr_str (and_or b) @ ''('' @ join '','' (map build_child (expressions b)) @ '','' @ '')''"
    if ne: "expressions b \<noteq> []" and em: "expressions (cb (FilterBuilder t [])) = []"
  proof -
    have shape: "addBooleanExpr t cb b =
        FilterBuilder (and_or b) (expressions b @ [Group (cb (FilterBuilder t []))])"
      using ne by (rule addBooleanExpr_nonempty)
    have "build_child (Group (cb (FilterBuilder t []))) = ''''"
      using em by (simp add: build_empty)
    then have "join '','' (map build_child (expressions b @ [Group (cb (FilterBuilder t []))])) =
        join '','' (map build_child (expressions b)) @ '',''"
      using ne by (simp add: join_snoc)
    then show ?thesis
      by (simp add: shape)
  qed
  from ex gen show ?thesis
    by blast
qed

theorem C10_empty_subgroup_dangling_comma_witness:
  "expressions (where' ''a'' (VNumber (num 1)) (new_FilterBuilder None)) \<noteq> [] \<and>
   expressions (id (FilterBuilder Or [])) = [] \<and>
   build (addBooleanExpr Or id (where' ''a'' (VNumber (num 1)) (new_FilterBuilder None))) =
     ''and(a.eq.1,)''"
  using C10_empty_subgroup_dangling_comma
    [of "where' ''a'' (VNumber (num 1)) (new_FilterBuilder None)" id Or]
  by (simp add: new_FilterBuilder_def where'_def addExpression_def rendering)

section \<open>Select and sort\<close>

text \<open>
  C7. \<open>buildSelect\<close> maps every node on its own, a field to its name and a relation to
  its name followed by the serialization of its children in parentheses, and joins the
  results with commas in the order of the entries: the serialization of two non-empty
  lists put one after the other is the two serializations with a comma between, and an
  entry given twice is written twice. The entries \<open>*\<close> and \<open>posts\<close> with children \<open>*\<close>
  and \<open>comments\<close> with child \<open>body\<close> serialize to \<open>*,posts(*,comments(body))\<close>.
\<close>

theorem C7_buildSelect:
  "buildSelect fs = join '','' (map serialize_node_spec fs) \<and>
   buildSelect [] = '''' \<and>
   buildSelect [Field f] = f \<and>
   buildSelect [Relation n cs] = n @ ''('' @ buildSelect cs @ '')'' \<and>
   (xs \<noteq> [] \<and> ys \<noteq> [] \<longrightarrow> buildSelect (xs @ ys) = buildSelect xs @ '','' @ buildSelect ys) \<and>
   buildSelect [Field f, Field f] = f @ '','' @ f \<and>
   buildSelect [Field ''*'', Relation ''posts'' [Field ''*'', Relation ''comments'' [Field ''body'']]] =
     ''*,posts(*,comments(body))''"
proof -
  have app: "buildSelect (xs @ ys) = buildSelect xs @ '','' @ buildSelect ys"
    if "xs \<noteq> []" "ys \<noteq> []"
    using that by (simp add: buildSelect_spec join_append)
  have ex: "buildSelect [Field ''*'', Relation ''posts'' [Field ''*'', Relation ''comments'' [Field ''body'']]] =
     ''*,posts(*,comments(body))''"
    by (simp add: buildSelect_spec)
  have small: "buildSelect [] = '''' \<and> buildSelect [Field f] = f \<and>
      buildSelect [Relation n cs] = n @ ''('' @ buildSelect cs @ '')'' \<and>
      buildSelect [Field f, Field f] = f @ '','' @ f"
    by (simp add: buildSelect_spec)
  from app ex small buildSelect_spec [of fs] show ?thesis
    by blast
qed

theorem C7_buildSelect_witness:
  "[Field ''a''] \<noteq> [] \<and> [Field ''b'', Field ''a''] \<noteq> [] \<and>
   buildSelect ([Field ''a''] @ [Field ''b'', Field ''a'']) = ''a,b,a''"
  using C7_buildSelect [of "[]" "''a''" "''a''" "[]" "[Field ''a'']" "[Field ''b'', Field ''a'']"]
  by (simp add: buildSelect_spec)

text \<open>
  C9. In src/src/Query.ts \<open>formatSort\<close> computes the formatted list and drops it: for the
  single directive with key \<open>name\<close> and order \<open>desc\<close> the call yields \<open>undefined\<close>, where
  the claim has the list holding \<open>!name\<close>. The later version of the same method
  (src/unnamed/part_002) returns that list.
\<close>

theorem C9_formatSort_src_Query_undefined:
  "formatSort_src_Query [\<lparr>sort_key = ''name'', sort_order = Desc\<rparr>] = None \<and>
   formatSort [\<lparr>sort_key = ''name'', sort_order = Desc\<rparr>] = [''!name'']"
  by (simp add: formatSort_src_Query_def formatSort_def)

end
